theory Spec2Isabelle
  imports Main "HOL-Library.Multiset"
begin

section \<open>MineBloom: the business logic of mainbloom.py\<close>

text \<open>
  The classes \<open>User\<close>, \<open>DailyAffirmationProvider\<close> and \<open>StackManager\<close> and the two
  callbacks \<open>do_login\<close> and \<open>next_q\<close> of \<open>MineBloomApp\<close> are embedded as functions on
  records. Python exceptions are values of \<open>exn\<close>, and a function that can raise returns
  \<open>exn + 'a\<close> with \<open>Inl\<close> for the exception, so that each \<open>try\<close>/\<open>except\<close> of the
  source is a case distinction of the model.
\<close>

datatype exn =
  OSError | JSONDecodeError | TypeError | ValueError | AttributeError | ZeroDivisionError

subsection \<open>Python values carried by the journal file\<close>

text \<open>
  What \<open>json.load\<close> returns: \<open>None\<close>, booleans, numbers, strings, lists and dicts with
  string keys. A dict is an association list read with \<open>map_of\<close>. The code never looks
  into a number, so a number is represented by an integer.
\<close>

datatype pyval =
  PNone
  | PBool bool
  | PNum int
  | PStr string
  | PList "pyval list"
  | PDict "(string \<times> pyval) list"

subsection \<open>StackManager\<close>

record 'a StackManager =
  stack :: "'a list"

definition StackManager_init :: "'a StackManager" where
  "StackManager_init = \<lparr>stack = []\<rparr>"

definition push :: "'a \<Rightarrow> 'a StackManager \<Rightarrow> 'a StackManager" where
  "push item s = s\<lparr>stack := stack s @ [item]\<rparr>"

text \<open>
  \<open>pop\<close> returns the popped item and the manager after the call; Python's \<open>None\<close>,
  returned on an empty stack, is \<open>None\<close> here and an item \<open>x\<close> is \<open>Some x\<close>.
\<close>

definition pop :: "'a StackManager \<Rightarrow> 'a option \<times> 'a StackManager" where
  "pop s = (if stack s \<noteq> [] then (Some (last (stack s)), s\<lparr>stack := butlast (stack s)\<rparr>)
            else (None, s))"

definition peek :: "'a StackManager \<Rightarrow> 'a option" where
  "peek s = (if stack s \<noteq> [] then Some (last (stack s)) else None)"

definition list_all :: "'a StackManager \<Rightarrow> 'a list" where
  "list_all s = stack s"

subsection \<open>The red-flag check\<close>

text \<open>
  The closure state of \<open>_open_red_flag_detector\<close>: the question index \<open>idx\<close>, the list
  \<open>answers\<close>, and the message box that \<open>next_q\<close> shows after the last question:
  \<open>count\<close> (written \<open>cnt\<close>), \<open>level\<close> and \<open>suggestion\<close>, or \<open>None\<close> while no
  result has been shown.
\<close>

record red_flag =
  idx :: int
  answers :: "int list"
  shown :: "(int \<times> string \<times> string) option"

definition n_items :: int where
  "n_items = 5"

definition red_flag_init :: red_flag where
  "red_flag_init = \<lparr>idx = 0, answers = [], shown = None\<rparr>"

definition level_of :: "int \<Rightarrow> string \<times> string" where
  "level_of cnt =
     (if cnt = 0 then (''Hijau (Aman)'', ''Terus pertahankan batas sehat.'')
      else if cnt \<le> 2 then
        (''Kuning (Waspada)'', ''Waspadai, bicarakan dengan orang terpercaya.'')
      else
        (''Merah (Berisiko)'',
         ''Pertimbangkan dukungan profesional dan rencana keselamatan.''))"

definition next_q :: "red_flag \<Rightarrow> red_flag" where
  "next_q s =
     (let i = idx s + 1 in
      if i < n_items then s\<lparr>idx := i\<rparr>
      else (let cnt = sum_list (answers s); (level, suggestion) = level_of cnt
            in s\<lparr>shown := Some (cnt, level, suggestion)\<rparr>))"

definition ans_yes :: "red_flag \<Rightarrow> red_flag" where
  "ans_yes s = next_q (s\<lparr>answers := answers s @ [1]\<rparr>)"

definition ans_no :: "red_flag \<Rightarrow> red_flag" where
  "ans_no s = next_q (s\<lparr>answers := answers s @ [0]\<rparr>)"

text \<open>Pressing the two buttons in turn: answer 1 is the yes button, any other the no button.\<close>

fun press :: "int list \<Rightarrow> red_flag \<Rightarrow> red_flag" where
  "press [] s = s"
| "press (a # as) s = press as (if a = 1 then ans_yes s else ans_no s)"

definition level_shown :: "red_flag \<Rightarrow> string option" where
  "level_shown s = map_option (\<lambda>(cnt, level, suggestion). level) (shown s)"

text \<open>The three tiers of the check, by the label the code gives them.\<close>

definition safe_tier :: string where
  "safe_tier = ''Hijau (Aman)''"

definition caution_tier :: string where
  "caution_tier = ''Kuning (Waspada)''"

definition risk_tier :: string where
  "risk_tier = ''Merah (Berisiko)''"

subsection \<open>Calendar dates and the daily affirmation\<close>

text \<open>
  \<open>datetime.date\<close>: the class admits only year 1..9999, month 1..12 and a day of that
  month (\<open>valid_date\<close>). \<open>toordinal\<close> is the proleptic Gregorian day number, 1 for
  0001-01-01, computed as the library's \<open>_ymd2ord\<close> does.
\<close>

record date =
  year :: nat
  month :: nat
  day :: nat

definition is_leap :: "nat \<Rightarrow> bool" where
  "is_leap y = (y mod 4 = 0 \<and> (y mod 100 \<noteq> 0 \<or> y mod 400 = 0))"

definition DAYS_IN_MONTH :: "int list" where
  "DAYS_IN_MONTH = [-1, 31, 28, 31, 30, 31, 30, 31, 31, 30, 31, 30, 31]"

definition DAYS_BEFORE_MONTH :: "int list" where
  "DAYS_BEFORE_MONTH = [-1, 0, 31, 59, 90, 120, 151, 181, 212, 243, 273, 304, 334]"

definition days_in_month :: "nat \<Rightarrow> nat \<Rightarrow> int" where
  "days_in_month y m = (if m = 2 \<and> is_leap y then 29 else DAYS_IN_MONTH ! m)"

definition days_before_year :: "nat \<Rightarrow> int" where
  "days_before_year y =
     (let y1 = int y - 1 in y1 * 365 + y1 div 4 - y1 div 100 + y1 div 400)"

definition days_before_month :: "nat \<Rightarrow> nat \<Rightarrow> int" where
  "days_before_month y m = DAYS_BEFORE_MONTH ! m + (if m > 2 \<and> is_leap y then 1 else 0)"

definition valid_ymd :: "nat \<Rightarrow> nat \<Rightarrow> nat \<Rightarrow> bool" where
  "valid_ymd y m d =
     (1 \<le> y \<and> y \<le> 9999 \<and> 1 \<le> m \<and> m \<le> 12 \<and> 1 \<le> d \<and> int d \<le> days_in_month y m)"

definition valid_date :: "date \<Rightarrow> bool" where
  "valid_date d = valid_ymd (year d) (month d) (day d)"

definition toordinal :: "date \<Rightarrow> int" where
  "toordinal d =
     days_before_year (year d) + days_before_month (year d) (month d) + int (day d)"

text \<open>
  \<open>DailyAffirmationProvider\<close>. \<open>today\<close> is the reading of \<open>datetime.date.today()\<close>,
  the local calendar date. \<open>daily_index\<close> is the local variable \<open>index\<close>: the remainder
  by the length of an empty list raises \<open>ZeroDivisionError\<close>, and Python's \<open>%\<close> with a
  positive divisor is \<open>mod\<close> on \<open>int\<close>.
\<close>

record 'a DailyAffirmationProvider =
  affirmations :: "'a list"

definition daily_index :: "date \<Rightarrow> 'a DailyAffirmationProvider \<Rightarrow> exn + int" where
  "daily_index today p =
     (if length (affirmations p) = 0 then Inl ZeroDivisionError
      else Inr (toordinal today mod int (length (affirmations p))))"

definition get_affirmation :: "date \<Rightarrow> 'a DailyAffirmationProvider \<Rightarrow> exn + 'a" where
  "get_affirmation today p =
     (case daily_index today p of
        Inl e \<Rightarrow> Inl e
      | Inr index \<Rightarrow> Inr (affirmations p ! nat index))"

subsection \<open>Timestamps and their ISO text\<close>

text \<open>
  \<open>datetime.datetime\<close> extends \<open>date\<close> by the time of day and \<open>tzinfo\<close>. A naive
  timestamp has \<open>utcoffset = None\<close>; every timestamp the application makes is naive. An
  aware timestamp, which the library can read from a file, carries its offset from UTC in
  microseconds, strictly between minus and plus 24 hours.
\<close>

record datetime = date +
  hour :: nat
  minute :: nat
  second :: nat
  microsecond :: nat
  utcoffset :: "int option"

text \<open>The local calendar date at a local time: what \<open>date.today()\<close> reads at that time.\<close>

definition local_date :: "datetime \<Rightarrow> date" where
  "local_date t = \<lparr>year = year t, month = month t, day = day t\<rparr>"

definition valid_offset :: "int option \<Rightarrow> bool" where
  "valid_offset off =
     (case off of None \<Rightarrow> True | Some v \<Rightarrow> - 86400000000 < v \<and> v < 86400000000)"

definition valid_datetime :: "datetime \<Rightarrow> bool" where
  "valid_datetime dt =
     (valid_ymd (year dt) (month dt) (day dt) \<and> hour dt \<le> 23 \<and> minute dt \<le> 59 \<and>
      second dt \<le> 59 \<and> microsecond dt \<le> 999999 \<and> valid_offset (utcoffset dt))"

text \<open>
  The constructor \<open>datetime.datetime(y, m, d, hh, mm, ss, us)\<close> of a naive timestamp:
  it raises \<open>ValueError\<close> for a field out of range.
\<close>

definition datetime_new ::
  "nat \<Rightarrow> nat \<Rightarrow> nat \<Rightarrow> nat \<Rightarrow> nat \<Rightarrow> nat \<Rightarrow> nat \<Rightarrow> exn + datetime" where
  "datetime_new y m d hh mm ss us =
     (if valid_ymd y m d \<and> hh \<le> 23 \<and> mm \<le> 59 \<and> ss \<le> 59 \<and> us \<le> 999999
      then Inr \<lparr>year = y, month = m, day = d,
                hour = hh, minute = mm, second = ss, microsecond = us, utcoffset = None\<rparr>
      else Inl ValueError)"

text \<open>Decimal digits; \<open>fmt_d w n\<close> is Python's \<open>'%0wd' % n\<close> for \<open>n \<ge> 0\<close>.\<close>

definition digit_char :: "nat \<Rightarrow> char" where
  "digit_char n = ''0123456789'' ! n"

fun decimal :: "nat \<Rightarrow> string" where
  "decimal n = (if n < 10 then [digit_char n] else decimal (n div 10) @ [digit_char (n mod 10)])"

declare decimal.simps [simp del]

definition fmt_d :: "nat \<Rightarrow> nat \<Rightarrow> string" where
  "fmt_d w n = replicate (w - length (decimal n)) (CHR ''0'') @ decimal n"

definition format_time :: "nat \<Rightarrow> nat \<Rightarrow> nat \<Rightarrow> nat \<Rightarrow> string" where
  "format_time hh mm ss us =
     fmt_d 2 hh @ '':'' @ fmt_d 2 mm @ '':'' @ fmt_d 2 ss @
     (if us \<noteq> 0 then ''.'' @ fmt_d 6 us else [])"

text \<open>
  The offset as \<open>isoformat\<close> writes it: nothing for a naive timestamp, else the sign,
  \<open>HH:MM\<close>, the seconds when seconds or microseconds are not zero, and the microseconds
  when they are not zero.
\<close>

definition format_offset :: "int option \<Rightarrow> string" where
  "format_offset off =
     (case off of
        None \<Rightarrow> []
      | Some v \<Rightarrow>
          (let a = nat \<bar>v\<bar>;
               hh = a div 3600000000; r = a mod 3600000000;
               mm = r div 60000000; r2 = r mod 60000000;
               ss = r2 div 1000000; us = r2 mod 1000000
           in (if v < 0 then ''-'' else ''+'') @ fmt_d 2 hh @ '':'' @ fmt_d 2 mm @
              (if ss \<noteq> 0 \<or> us \<noteq> 0
               then '':'' @ fmt_d 2 ss @ (if us \<noteq> 0 then ''.'' @ fmt_d 6 us else [])
               else [])))"

definition isoformat :: "datetime \<Rightarrow> string" where
  "isoformat dt =
     fmt_d 4 (year dt) @ ''-'' @ fmt_d 2 (month dt) @ ''-'' @ fmt_d 2 (day dt) @ ''T'' @
     format_time (hour dt) (minute dt) (second dt) (microsecond dt) @
     format_offset (utcoffset dt)"

text \<open>
  \<open>datetime.fromisoformat\<close> belongs to the library of the interpreter, and the strings
  it reads depend on the version of the interpreter: the functions below that call it
  take it as the parameter \<open>parse\<close>.

  \<open>read_isoformat\<close> is a reader of the text that \<open>isoformat\<close> writes for a naive
  timestamp, in the grammar \<open>YYYY-MM-DD[*HH[:MM[:SS[.fff[fff]]]]]\<close> where \<open>*\<close> is any one
  character; any other string is a \<open>ValueError\<close>. It serves as an instance of \<open>parse\<close>:
  on the text \<open>isoformat\<close> writes for a naive timestamp the library, which reads more
  strings than this, returns the same timestamp.
\<close>

definition digit_val :: "char \<Rightarrow> nat option" where
  "digit_val c = map_of (zip ''0123456789'' [0, 1, 2, 3, 4, 5, 6, 7, 8, 9]) c"

fun parse_acc :: "string \<Rightarrow> nat \<Rightarrow> nat option" where
  "parse_acc [] acc = Some acc"
| "parse_acc (c # cs) acc =
     (case digit_val c of None \<Rightarrow> None | Some v \<Rightarrow> parse_acc cs (10 * acc + v))"

definition parse_digits :: "string \<Rightarrow> nat option" where
  "parse_digits s = (if s = [] then None else parse_acc s 0)"

definition two_digits :: "string \<Rightarrow> nat option" where
  "two_digits s = (if length s < 2 then None else parse_digits (take 2 s))"

definition parse_isoformat_date :: "string \<Rightarrow> (nat \<times> nat \<times> nat) option" where
  "parse_isoformat_date dtstr =
     (if length dtstr = 10 \<and> dtstr ! 4 = CHR ''-'' \<and> dtstr ! 7 = CHR ''-'' then
        (case (parse_digits (take 4 dtstr), parse_digits (take 2 (drop 5 dtstr)),
               parse_digits (drop 8 dtstr)) of
           (Some y, Some m, Some d) \<Rightarrow> Some (y, m, d)
         | _ \<Rightarrow> None)
      else None)"

definition parse_fraction :: "string \<Rightarrow> nat option" where
  "parse_fraction f =
     (if length f = 3 then map_option (\<lambda>v. v * 1000) (parse_digits f)
      else if length f = 6 then parse_digits f
      else None)"

definition parse_hh_mm_ss_ff :: "string \<Rightarrow> (nat \<times> nat \<times> nat \<times> nat) option" where
  "parse_hh_mm_ss_ff tstr =
     (case two_digits tstr of
        None \<Rightarrow> None
      | Some hh \<Rightarrow>
          (let r1 = drop 2 tstr in
           if r1 = [] then Some (hh, 0, 0, 0)
           else if hd r1 \<noteq> CHR '':'' then None
           else
             (case two_digits (tl r1) of
                None \<Rightarrow> None
              | Some mm \<Rightarrow>
                  (let r2 = drop 2 (tl r1) in
                   if r2 = [] then Some (hh, mm, 0, 0)
                   else if hd r2 \<noteq> CHR '':'' then None
                   else
                     (case two_digits (tl r2) of
                        None \<Rightarrow> None
                      | Some ss \<Rightarrow>
                          (let r3 = drop 2 (tl r2) in
                           if r3 = [] then Some (hh, mm, ss, 0)
                           else if hd r3 \<noteq> CHR ''.'' then None
                           else map_option (\<lambda>us. (hh, mm, ss, us))
                                  (parse_fraction (tl r3))))))))"

definition read_isoformat :: "string \<Rightarrow> exn + datetime" where
  "read_isoformat date_string =
     (case parse_isoformat_date (take 10 date_string) of
        None \<Rightarrow> Inl ValueError
      | Some (y, m, d) \<Rightarrow>
          (case (if length date_string = 10 then Some (0, 0, 0, 0)
                 else parse_hh_mm_ss_ff (drop 11 date_string)) of
             None \<Rightarrow> Inl ValueError
           | Some (hh, mm, ss, us) \<Rightarrow> datetime_new y m d hh mm ss us))"

subsection \<open>Text\<close>

text \<open>
  A Python \<open>str\<close> is a \<open>string\<close> whose characters are the code points below 256.
  \<open>isspace\<close> and \<open>isalnum\<close> are \<open>str.isspace\<close> and \<open>str.isalnum\<close> on these code
  points; \<open>strip\<close> and \<open>rstrip\<close> remove white space at both ends and at the right end.
\<close>

definition isspace :: "char \<Rightarrow> bool" where
  "isspace c =
     (let n = (of_char c :: nat) in
      (9 \<le> n \<and> n \<le> 13) \<or> (28 \<le> n \<and> n \<le> 32) \<or> n = 133 \<or> n = 160)"

definition isalnum :: "char \<Rightarrow> bool" where
  "isalnum c =
     (let n = (of_char c :: nat) in
      (48 \<le> n \<and> n \<le> 57) \<or> (65 \<le> n \<and> n \<le> 90) \<or> (97 \<le> n \<and> n \<le> 122) \<or>
      n = 170 \<or> n = 178 \<or> n = 179 \<or> n = 181 \<or> n = 185 \<or> n = 186 \<or>
      (188 \<le> n \<and> n \<le> 190) \<or> (192 \<le> n \<and> n \<le> 214) \<or> (216 \<le> n \<and> n \<le> 246) \<or>
      248 \<le> n)"

definition rstrip :: "string \<Rightarrow> string" where
  "rstrip s = rev (dropWhile isspace (rev s))"

definition strip :: "string \<Rightarrow> string" where
  "strip s = rstrip (dropWhile isspace s)"

subsection \<open>The journal file\<close>

text \<open>
  The disk maps a path to what reading the file there gives: \<open>Unreadable\<close> when
  \<open>open\<close> or the decoding raises, \<open>Malformed\<close> when \<open>json.load\<close> raises on its
  text, and \<open>Json v\<close> when \<open>json.load\<close> returns \<open>v\<close>. A path with no file maps to
  \<open>None\<close>. \<open>json.dump\<close> followed by \<open>json.load\<close> is taken to return the value dumped.

  Whether a write succeeds is decided by the environment: \<open>WriteOk\<close>, or
  \<open>WriteFails e left\<close> when \<open>open\<close> or \<open>json.dump\<close> raises \<open>e\<close> and leaves \<open>left\<close>
  at the path.
\<close>

datatype filedata = Unreadable | Malformed | Json pyval

type_synonym disk = "string \<Rightarrow> filedata option"

datatype write_outcome = WriteOk | WriteFails exn "filedata option"

definition read_json :: "filedata \<Rightarrow> exn + pyval" where
  "read_json f =
     (case f of Unreadable \<Rightarrow> Inl OSError | Malformed \<Rightarrow> Inl JSONDecodeError | Json v \<Rightarrow> Inr v)"

definition dump_file :: "write_outcome \<Rightarrow> string \<Rightarrow> pyval \<Rightarrow> disk \<Rightarrow> (exn + unit) \<times> disk" where
  "dump_file w path data fs =
     (case w of
        WriteOk \<Rightarrow> (Inr (), fs(path \<mapsto> Json data))
      | WriteFails e left \<Rightarrow> (Inl e, fs(path := left)))"

text \<open>
  \<open>for item in data\<close>, \<open>item.get(key, default)\<close>, and \<open>datetime.fromisoformat\<close> on any
  value: a \<open>TypeError\<close> unless the value is a string, which the library's \<open>parse\<close> reads.
\<close>

definition py_iter :: "pyval \<Rightarrow> exn + pyval list" where
  "py_iter data =
     (case data of
        PList xs \<Rightarrow> Inr xs
      | PDict kvs \<Rightarrow> Inr (map (\<lambda>(k, v). PStr k) kvs)
      | PStr cs \<Rightarrow> Inr (map (\<lambda>c. PStr [c]) cs)
      | _ \<Rightarrow> Inl TypeError)"

definition py_get :: "pyval \<Rightarrow> string \<Rightarrow> pyval \<Rightarrow> exn + pyval" where
  "py_get item key dflt =
     (case item of
        PDict kvs \<Rightarrow> Inr (case map_of kvs key of None \<Rightarrow> dflt | Some v \<Rightarrow> v)
      | _ \<Rightarrow> Inl AttributeError)"

definition fromisoformat_val :: "(string \<Rightarrow> exn + datetime) \<Rightarrow> pyval \<Rightarrow> exn + datetime" where
  "fromisoformat_val parse v = (case v of PStr s \<Rightarrow> parse s | _ \<Rightarrow> Inl TypeError)"

subsection \<open>User\<close>

record user =
  username :: string
  partner :: string
  journal_password :: "string option"
  journal_entries :: "(datetime \<times> pyval) list"
  journal_file :: string

definition set_journal_password :: "string \<Rightarrow> user \<Rightarrow> user" where
  "set_journal_password pwd u = u\<lparr>journal_password := Some pwd\<rparr>"

definition check_journal_password :: "string \<Rightarrow> user \<Rightarrow> bool" where
  "check_journal_password pwd u = (journal_password u = Some pwd)"

definition get_journal_entries :: "user \<Rightarrow> (datetime \<times> pyval) list" where
  "get_journal_entries u = journal_entries u"

text \<open>\<open>_save_journals\<close>: the list \<open>data\<close> it builds, and the write with its \<open>except: pass\<close>.\<close>

definition journal_data :: "(datetime \<times> pyval) list \<Rightarrow> pyval" where
  "journal_data es =
     PList (map (\<lambda>(dt, content). PDict [(''date'', PStr (isoformat dt)), (''content'', content)]) es)"

definition save_journals :: "write_outcome \<Rightarrow> user \<Rightarrow> disk \<Rightarrow> (exn + unit) \<times> disk" where
  "save_journals w u fs =
     (let data = journal_data (journal_entries u) in
      case dump_file w (journal_file u) data fs of
        (Inl e, fs') \<Rightarrow> (Inr (), fs')
      | (Inr r, fs') \<Rightarrow> (Inr (), fs'))"

text \<open>
  \<open>add_journal_entry\<close>. \<open>now\<close> is the reading of \<open>datetime.datetime.now()\<close>. The
  \<open>date\<close> argument is absent, a \<open>date\<close> that is not a \<open>datetime\<close>, or a \<open>datetime\<close>.
\<close>

datatype date_arg = NoDate | DateOnly date | DateTime datetime

definition normalize_date :: "datetime \<Rightarrow> date_arg \<Rightarrow> exn + datetime" where
  "normalize_date now d =
     (case d of
        NoDate \<Rightarrow> Inr now
      | DateOnly d0 \<Rightarrow> datetime_new (year d0) (month d0) (day d0) 0 0 0 0
      | DateTime dt \<Rightarrow> Inr dt)"

definition add_journal_entry ::
  "datetime \<Rightarrow> write_outcome \<Rightarrow> pyval \<Rightarrow> date_arg \<Rightarrow> user \<Rightarrow> disk \<Rightarrow> (exn + user) \<times> disk" where
  "add_journal_entry now w entry d u fs =
     (case normalize_date now d of
        Inl e \<Rightarrow> (Inl e, fs)
      | Inr dt \<Rightarrow>
          (let u' = u\<lparr>journal_entries := journal_entries u @ [(dt, entry)]\<rparr> in
           case save_journals w u' fs of
             (Inl e, fs') \<Rightarrow> (Inr u', fs')
           | (Inr r, fs') \<Rightarrow> (Inr u', fs')))"

text \<open>
  \<open>_load_journals\<close>. \<open>parse\<close> is \<open>datetime.datetime.fromisoformat\<close>, and \<open>clock k\<close>
  is the reading of the \<open>k\<close>-th call of
  \<open>datetime.datetime.now()\<close> during the load; \<open>load_items\<close> is the loop over the
  records, with the entries appended so far in \<open>acc\<close>.
\<close>

fun load_items ::
  "(string \<Rightarrow> exn + datetime) \<Rightarrow> (nat \<Rightarrow> datetime) \<Rightarrow> nat \<Rightarrow> pyval list \<Rightarrow>
   (datetime \<times> pyval) list \<Rightarrow> exn + (datetime \<times> pyval) list" where
  "load_items parse clock k [] acc = Inr acc"
| "load_items parse clock k (item # items) acc =
     (let (dt, k') =
        (case (case py_get item ''date'' PNone of
                 Inl e \<Rightarrow> Inl e
               | Inr v \<Rightarrow> fromisoformat_val parse v) of
           Inl e \<Rightarrow> (clock k, Suc k)
         | Inr t \<Rightarrow> (t, k))
      in case py_get item ''content'' (PStr []) of
           Inl e \<Rightarrow> Inl e
         | Inr content \<Rightarrow> load_items parse clock k' items (acc @ [(dt, content)]))"

definition load_journals ::
  "(string \<Rightarrow> exn + datetime) \<Rightarrow> (nat \<Rightarrow> datetime) \<Rightarrow> user \<Rightarrow> disk \<Rightarrow> exn + user" where
  "load_journals parse clock u fs =
     (case fs (journal_file u) of
        None \<Rightarrow> Inr u
      | Some f \<Rightarrow>
          (case (case read_json f of
                   Inl e \<Rightarrow> Inl e
                 | Inr data \<Rightarrow>
                     (case py_iter data of
                        Inl e \<Rightarrow> Inl e
                      | Inr items \<Rightarrow> load_items parse clock 0 items [])) of
             Inl e \<Rightarrow> Inr (u\<lparr>journal_entries := []\<rparr>)
           | Inr es \<Rightarrow> Inr (u\<lparr>journal_entries := es\<rparr>)))"

text \<open>\<open>User.__init__\<close>; \<open>cwd\<close> is \<open>os.getcwd()\<close> and \<open>path_join\<close> is \<open>os.path.join\<close> (POSIX).\<close>

definition path_join :: "string \<Rightarrow> string \<Rightarrow> string" where
  "path_join a b = (if a = [] \<or> last a = CHR ''/'' then a @ b else a @ ''/'' @ b)"

definition safe_name :: "string \<Rightarrow> string" where
  "safe_name uname =
     rstrip (filter (\<lambda>c. isalnum c \<or> c = CHR '' '' \<or> c = CHR ''.'' \<or> c = CHR ''_'') uname)"

definition User_init ::
  "string \<Rightarrow> (string \<Rightarrow> exn + datetime) \<Rightarrow> (nat \<Rightarrow> datetime) \<Rightarrow> disk \<Rightarrow> string \<Rightarrow> string \<Rightarrow>
   exn + user" where
  "User_init cwd parse clock fs uname prt =
     load_journals parse clock
       \<lparr>username = uname, partner = prt, journal_password = None, journal_entries = [],
        journal_file = path_join cwd (''journals_'' @ safe_name uname @ ''.json'')\<rparr>
       fs"

subsection \<open>Login\<close>

text \<open>
  \<open>do_login\<close>, with the texts of the two entry fields as arguments. The state of the
  application it touches is \<open>current_user\<close>; a rejected login (the warning box) leaves
  it as it was.
\<close>

record app =
  current_user :: "user option"

definition do_login ::
  "string \<Rightarrow> (string \<Rightarrow> exn + datetime) \<Rightarrow> (nat \<Rightarrow> datetime) \<Rightarrow> disk \<Rightarrow> string \<Rightarrow> string \<Rightarrow>
   app \<Rightarrow> exn + app" where
  "do_login cwd parse clock fs username_entry partner_entry a =
     (let uname = strip username_entry; prt = strip partner_entry in
      if uname = [] \<or> uname = ''Masukkan nama kamu...'' then Inr a
      else
        (case User_init cwd parse clock fs uname prt of
           Inl e \<Rightarrow> Inl e
         | Inr u \<Rightarrow>
             Inr (a\<lparr>current_user :=
                    Some (if prt \<noteq> [] \<and> prt \<noteq> ''Nama pasangan (opsional)...''
                          then set_journal_password prt u
                          else set_journal_password ''mine123'' u)\<rparr>)))"

subsection \<open>Notions used to state the properties\<close>

text \<open>A timestamp cut to the minute, and an entry as the pair (content, minute).\<close>

definition truncate_minute :: "datetime \<Rightarrow> datetime" where
  "truncate_minute dt = dt\<lparr>second := 0, microsecond := 0\<rparr>"

definition minute_pair :: "datetime \<times> pyval \<Rightarrow> pyval \<times> datetime" where
  "minute_pair e = (snd e, truncate_minute (fst e))"

text \<open>Midnight of a calendar date.\<close>

definition midnight :: "date \<Rightarrow> datetime" where
  "midnight d =
     \<lparr>year = year d, month = month d, day = day d,
      hour = 0, minute = 0, second = 0, microsecond = 0, utcoffset = None\<rparr>"

text \<open>A \<open>date\<close> argument that is a date-only value holds a date of the calendar.\<close>

definition date_arg_ok :: "date_arg \<Rightarrow> bool" where
  "date_arg_ok d = (case d of DateOnly d0 \<Rightarrow> valid_date d0 | _ \<Rightarrow> True)"

text \<open>
  Records of the file: \<open>is_record\<close> holds of a JSON object and \<open>field\<close> reads a key
  of it. \<open>parsed_date parse\<close> is the timestamp that \<open>parse\<close> reads from the \<open>date\<close> of
  a record, \<open>None\<close> when the key is missing, its value is not a string, or the string
  is rejected. \<open>fallbacks_before parse i items\<close> counts the elements before the \<open>i\<close>-th
  with no such timestamp.
\<close>

definition is_record :: "pyval \<Rightarrow> bool" where
  "is_record v = (case v of PDict kvs \<Rightarrow> True | _ \<Rightarrow> False)"

definition field :: "pyval \<Rightarrow> string \<Rightarrow> pyval option" where
  "field v key = (case v of PDict kvs \<Rightarrow> map_of kvs key | _ \<Rightarrow> None)"

definition parsed_date :: "(string \<Rightarrow> exn + datetime) \<Rightarrow> pyval \<Rightarrow> datetime option" where
  "parsed_date parse v =
     (case field v ''date'' of
        Some (PStr s) \<Rightarrow> (case parse s of Inl e \<Rightarrow> None | Inr t \<Rightarrow> Some t)
      | _ \<Rightarrow> None)"

definition fallbacks_before :: "(string \<Rightarrow> exn + datetime) \<Rightarrow> nat \<Rightarrow> pyval list \<Rightarrow> nat" where
  "fallbacks_before parse i items =
     length (filter (\<lambda>v. parsed_date parse v = None) (take i items))"

definition is_text :: "pyval \<Rightarrow> bool" where
  "is_text v = (case v of PStr s \<Rightarrow> True | _ \<Rightarrow> False)"

text \<open>A disk with no file, and the session that a login leaves.\<close>

definition empty_disk :: disk where
  "empty_disk = (\<lambda>path. None)"

definition session :: "exn + app \<Rightarrow> user option" where
  "session r = (case r of Inl e \<Rightarrow> None | Inr a \<Rightarrow> current_user a)"

text \<open>The partner name and the journal secret of the session that a login leaves.\<close>

definition session_partner :: "exn + app \<Rightarrow> string option" where
  "session_partner r = map_option partner (session r)"

definition session_secret :: "exn + app \<Rightarrow> string option" where
  "session_secret r = (case session r of None \<Rightarrow> None | Some u \<Rightarrow> journal_password u)"

text \<open>Sample values, for the instances below.\<close>

definition sample_time :: datetime where
  "sample_time =
     \<lparr>year = 2024, month = 2, day = 29,
      hour = 23, minute = 59, second = 58, microsecond = 123456, utcoffset = None\<rparr>"

definition sample_date :: date where
  "sample_date = \<lparr>year = 2023, month = 1, day = 5\<rparr>"

definition sample_clock :: "nat \<Rightarrow> datetime" where
  "sample_clock k =
     \<lparr>year = 2025, month = 6, day = 7,
      hour = 8, minute = 9, second = k, microsecond = 0, utcoffset = None\<rparr>"

definition sample_user :: user where
  "sample_user =
     \<lparr>username = ''Mine'', partner = ''Budi'', journal_password = Some ''Budi'',
      journal_entries = [(sample_time, PStr ''hari ini''), (midnight sample_date, PStr ''Mood'')],
      journal_file = ''/home/mine/journals_Mine.json''\<rparr>"

definition sample_file :: pyval where
  "sample_file =
     PList [PDict [(''date'', PStr ''kemarin''), (''content'', PStr ''a'')],
            PDict [(''date'', PStr ''2024-02-29T23:59:58.123456'')],
            PDict [(''content'', PStr ''c'')]]"

definition sample_disk :: disk where
  "sample_disk = empty_disk(''/home/mine/journals_Mine.json'' \<mapsto> Json sample_file)"

text \<open>A file whose second element is not a record, and a file whose record has the
  content \<open>null\<close>.\<close>

definition mixed_file :: pyval where
  "mixed_file = PList [PDict [(''date'', PStr ''kemarin''), (''content'', PStr ''a'')], PNum 5]"

definition mixed_disk :: disk where
  "mixed_disk = empty_disk(''/home/mine/journals_Mine.json'' \<mapsto> Json mixed_file)"

definition null_file :: pyval where
  "null_file = PList [PDict [(''date'', PStr ''2024-02-29T23:59:58.123456''), (''content'', PNone)]]"

definition null_disk :: disk where
  "null_disk = empty_disk(''/home/mine/journals_Mine.json'' \<mapsto> Json null_file)"

text \<open>The affirmations of \<open>MineBloomApp\<close> and its daily provider.\<close>

definition app_affirmations :: "string list" where
  "app_affirmations =
     [''Kamu cantik, di dalam dan di luar.'',
      ''Kamu hebat dalam caramu sendiri.'',
      ''Kamu kuat lebih dari yang kamu kira.'',
      ''Kamu baik dan penuh kasih sayang.'',
      ''Kamu layak dicintai dan diperlakukan baik.'',
      ''Kamu pantas menerima ketenangan.'',
      ''Kamu cukup apa adanya.'',
      ''Kamu berharga.'',
      ''Kamu tidak sendiri.'',
      ''Kamu boleh istirahat hari ini.'',
      ''Kamu berhak atas batasan yang sehat.'',
      ''Kamu boleh memilih diri sendiri.'',
      ''Kamu tidak harus sempurna untuk dicintai.'',
      ''Kamu berani karena kamu terus mencoba.'',
      ''Kamu punya kekuatan dalam kelembutan.'',
      ''Kamu boleh menetapkan batas.'',
      ''Kamu layak mendapatkan rasa aman.'',
      ''Kamu berhak merasa tenang.'',
      ''Kamu mampu mengatasi ini perlahan-lahan.'',
      ''Kamu pantas mendapat dukungan.'']"

definition daily_provider :: "string DailyAffirmationProvider" where
  "daily_provider = \<lparr>affirmations = app_affirmations\<rparr>"

definition sample_login :: "exn + app" where
  "sample_login =
     do_login ''/home/mine'' read_isoformat sample_clock empty_disk '' Mine '' ''  Budi ''
       \<lparr>current_user = None\<rparr>"

definition placeholder_login :: "exn + app" where
  "placeholder_login =
     do_login ''/home/mine'' read_isoformat sample_clock empty_disk ''Mine''
       ''Nama pasangan (opsional)...'' \<lparr>current_user = None\<rparr>"

text \<open>The record that \<open>_save_journals\<close> writes for an entry.\<close>

definition saved_record :: "datetime \<times> pyval \<Rightarrow> pyval" where
  "saved_record e = PDict [(''date'', PStr (isoformat (fst e))), (''content'', snd e)]"


section \<open>Properties\<close>

subsection \<open>Decimal fields are read back\<close>

lemma digit_val_digit_char: "n < 10 \<Longrightarrow> digit_val (digit_char n) = Some n"
proof -
  assume "n < 10"
  then have "n \<in> {0,1,2,3,4,5,6,7,8,9}" by auto
  then show ?thesis
    by (auto simp: digit_val_def digit_char_def)
qed

lemma parse_acc_append:
  "parse_acc (xs @ ys) a = (case parse_acc xs a of None \<Rightarrow> None | Some b \<Rightarrow> parse_acc ys b)"
  by (induction xs arbitrary: a) (auto split: option.splits)

lemma decimal_nonempty: "decimal n \<noteq> []"
  by (induction n rule: decimal.induct) (subst decimal.simps, simp)

lemma parse_acc_decimal: "parse_acc (decimal n) a = Some (a * 10 ^ length (decimal n) + n)"
proof (induction n arbitrary: a rule: decimal.induct)
  case (1 n)
  show ?case
  proof (cases "n < 10")
    case True
    then show ?thesis by (subst (1 2) decimal.simps) (simp add: digit_val_digit_char)
  next
    case False
    have m: "n mod 10 < 10" by simp
    from False 1 show ?thesis
      by (subst (1 2) decimal.simps) (simp add: parse_acc_append digit_val_digit_char [OF m] algebra_simps)
  qed
qed

lemma parse_acc_zeros: "parse_acc (replicate k (CHR ''0'')) 0 = Some 0"
  by (induction k) (auto simp: digit_val_def)

lemma parse_digits_fmt_d: "parse_digits (fmt_d w n) = Some n"
  by (simp add: parse_digits_def fmt_d_def decimal_nonempty parse_acc_append parse_acc_zeros parse_acc_decimal)

lemma length_decimal: "0 < w \<Longrightarrow> n < 10 ^ w \<Longrightarrow> length (decimal n) \<le> w"
proof (induction n arbitrary: w rule: decimal.induct)
  case (1 n)
  show ?case
  proof (cases "n < 10")
    case True
    with 1(2) show ?thesis by (subst decimal.simps) simp
  next
    case False
    obtain v where w: "w = Suc v" using 1(2) by (cases w) auto
    have "v \<noteq> 0" using False 1(3) w by (cases v) auto
    moreover have "n div 10 < 10 ^ v" using 1(3) w by (simp add: less_mult_imp_div_less mult.commute)
    ultimately have "length (decimal (n div 10)) \<le> v" using 1(1) [OF False, of v] by simp
    with False w show ?thesis by (subst decimal.simps) simp
  qed
qed

lemma length_fmt_d: "0 < w \<Longrightarrow> n < 10 ^ w \<Longrightarrow> length (fmt_d w n) = w"
  using length_decimal [of w n] by (simp add: fmt_d_def)

subsection \<open>\<open>read_isoformat\<close> reads back what \<open>isoformat\<close> writes\<close>

lemma parse_date_pieces:
  assumes "length Y = 4" "length M = 2" "length D = 2"
  shows "parse_isoformat_date (Y @ ''-'' @ M @ ''-'' @ D) =
     (case (parse_digits Y, parse_digits M, parse_digits D) of
        (Some y, Some m, Some d) \<Rightarrow> Some (y, m, d) | _ \<Rightarrow> None)"
  using assms by (simp add: parse_isoformat_date_def nth_append)

lemma two_digits_pieces: "length H = 2 \<Longrightarrow> two_digits (H @ r) = parse_digits H"
  by (simp add: two_digits_def)

lemma parse_time_pieces:
  assumes "length H = 2" "length M = 2" "length S = 2"
    and "parse_digits H = Some hh" "parse_digits M = Some mm" "parse_digits S = Some ss"
  shows "parse_hh_mm_ss_ff (H @ '':'' @ M @ '':'' @ S @ r) =
     (if r = [] then Some (hh, mm, ss, 0)
      else if hd r \<noteq> CHR ''.'' then None
      else map_option (\<lambda>us. (hh, mm, ss, us)) (parse_fraction (tl r)))"
  using assms by (simp add: parse_hh_mm_ss_ff_def two_digits_pieces Let_def)

lemma days_in_month_le: "1 \<le> m \<Longrightarrow> m \<le> 12 \<Longrightarrow> days_in_month y m \<le> 31"
proof -
  assume "1 \<le> m" "m \<le> 12"
  then have "m = 1 \<or> m = 2 \<or> m = 3 \<or> m = 4 \<or> m = 5 \<or> m = 6 \<or> m = 7 \<or> m = 8 \<or>
      m = 9 \<or> m = 10 \<or> m = 11 \<or> m = 12"
    by arith
  then show ?thesis
    by (elim disjE) (simp_all add: days_in_month_def DAYS_IN_MONTH_def)
qed

lemma read_isoformat_isoformat:
  assumes "valid_datetime dt" and "utcoffset dt = None"
  shows "read_isoformat (isoformat dt) = Inr dt"
proof -
  from assms days_in_month_le [of "month dt" "year dt"] have b: "year dt < 10 ^ 4"
    "month dt < 10 ^ 2" "day dt < 10 ^ 2" "hour dt < 10 ^ 2" "minute dt < 10 ^ 2"
    "second dt < 10 ^ 2" "microsecond dt < 10 ^ 6"
    by (auto simp: valid_datetime_def valid_ymd_def)
  note len = length_fmt_d [OF _ b(1)] length_fmt_d [OF _ b(2)] length_fmt_d [OF _ b(3)]
    length_fmt_d [OF _ b(4)] length_fmt_d [OF _ b(5)] length_fmt_d [OF _ b(6)]
    length_fmt_d [OF _ b(7)]
  have iso: "isoformat dt =
      fmt_d 4 (year dt) @ ''-'' @ fmt_d 2 (month dt) @ ''-'' @ fmt_d 2 (day dt) @ ''T'' @
      format_time (hour dt) (minute dt) (second dt) (microsecond dt)"
    using assms(2) by (simp add: isoformat_def format_offset_def)
  have d: "take 10 (isoformat dt) =
      fmt_d 4 (year dt) @ ''-'' @ fmt_d 2 (month dt) @ ''-'' @ fmt_d 2 (day dt)"
    by (simp add: iso len)
  have t: "drop 11 (isoformat dt) =
      format_time (hour dt) (minute dt) (second dt) (microsecond dt)"
    by (simp add: iso len)
  have l: "length (isoformat dt) \<noteq> 10"
    by (simp add: iso len)
  have pt: "parse_hh_mm_ss_ff (format_time (hour dt) (minute dt) (second dt) (microsecond dt))
     = Some (hour dt, minute dt, second dt, microsecond dt)"
    unfolding format_time_def
    by (subst parse_time_pieces [where hh = "hour dt" and mm = "minute dt" and ss = "second dt"])
       (simp_all add: len parse_digits_fmt_d parse_fraction_def)
  have pd: "parse_isoformat_date (take 10 (isoformat dt)) = Some (year dt, month dt, day dt)"
    unfolding d by (subst parse_date_pieces) (simp_all add: len parse_digits_fmt_d)
  show ?thesis
    using assms
    by (simp add: read_isoformat_def pd t l pt datetime_new_def valid_datetime_def)
qed

subsection \<open>The loop of \<open>_load_journals\<close>\<close>

lemma load_items_step:
  "load_items parse clock k (PDict kvs # items) acc =
     load_items parse clock
       (case parsed_date parse (PDict kvs) of None \<Rightarrow> Suc k | Some t \<Rightarrow> k) items
       (acc @ [(case parsed_date parse (PDict kvs) of None \<Rightarrow> clock k | Some t \<Rightarrow> t,
                case map_of kvs ''content'' of None \<Rightarrow> PStr [] | Some v \<Rightarrow> v)])"
  by (simp add: py_get_def fromisoformat_val_def parsed_date_def field_def
      split: option.splits pyval.splits sum.splits)

lemma load_items_records:
  assumes "\<forall>item \<in> set items. is_record item"
  shows "\<exists>es. load_items parse clock k items acc = Inr (acc @ es) \<and>
     length es = length items \<and>
     (\<forall>i < length items.
        snd (es ! i) = (case field (items ! i) ''content'' of None \<Rightarrow> PStr [] | Some v \<Rightarrow> v) \<and>
        fst (es ! i) = (case parsed_date parse (items ! i) of
                          None \<Rightarrow> clock (k + fallbacks_before parse i items)
                        | Some t \<Rightarrow> t))"
  using assms
proof (induction items arbitrary: k acc)
  case Nil
  show ?case by simp
next
  case (Cons item items)
  then obtain kvs where item: "item = PDict kvs"
    by (cases item) (auto simp: is_record_def)
  let ?k = "case parsed_date parse item of None \<Rightarrow> Suc k | Some t \<Rightarrow> k"
  let ?e = "(case parsed_date parse item of None \<Rightarrow> clock k | Some t \<Rightarrow> t,
             case map_of kvs ''content'' of None \<Rightarrow> PStr [] | Some v \<Rightarrow> v)"
  from Cons.prems have "\<forall>item \<in> set items. is_record item" by simp
  from Cons.IH [OF this, of ?k "acc @ [?e]"]
  obtain es where es: "load_items parse clock ?k items (acc @ [?e]) = Inr ((acc @ [?e]) @ es)"
    "length es = length items"
    "\<And>i. i < length items \<Longrightarrow>
        snd (es ! i) = (case field (items ! i) ''content'' of None \<Rightarrow> PStr [] | Some v \<Rightarrow> v) \<and>
        fst (es ! i) = (case parsed_date parse (items ! i) of
                          None \<Rightarrow> clock (?k + fallbacks_before parse i items)
                        | Some t \<Rightarrow> t)"
    by blast
  have "load_items parse clock k (item # items) acc = Inr (acc @ (?e # es))"
    using es(1) unfolding item load_items_step by simp
  moreover have "length (?e # es) = length (item # items)"
    using es(2) by simp
  moreover have "snd ((?e # es) ! i) =
        (case field ((item # items) ! i) ''content'' of None \<Rightarrow> PStr [] | Some v \<Rightarrow> v) \<and>
      fst ((?e # es) ! i) = (case parsed_date parse ((item # items) ! i) of
                          None \<Rightarrow> clock (k + fallbacks_before parse i (item # items))
                        | Some t \<Rightarrow> t)" if "i < length (item # items)" for i
  proof (cases i)
    case 0
    then show ?thesis by (simp add: item field_def fallbacks_before_def split: option.splits)
  next
    case (Suc j)
    with that have j: "j < length items" by simp
    have eq: "?k + fallbacks_before parse j items =
        k + fallbacks_before parse (Suc j) (item # items)"
      by (simp add: fallbacks_before_def split: option.splits)
    from es(3) [OF j, unfolded eq] show ?thesis unfolding Suc by simp
  qed
  ultimately show ?case by blast
qed

text \<open>An element that is not a record stops the loop with an exception.\<close>

lemma load_items_not_record:
  assumes "\<exists>item \<in> set items. \<not> is_record item"
  shows "\<exists>e. load_items parse clock k items acc = Inl e"
  using assms
proof (induction items arbitrary: k acc)
  case Nil
  then show ?case by simp
next
  case (Cons item items)
  show ?case
  proof (cases "is_record item")
    case True
    then obtain kvs where item: "item = PDict kvs"
      by (cases item) (auto simp: is_record_def)
    from True Cons.prems have "\<exists>item \<in> set items. \<not> is_record item" by auto
    from Cons.IH [OF this] show ?thesis unfolding item load_items_step by blast
  next
    case False
    then have "py_get item ''content'' (PStr []) = Inl AttributeError"
      by (cases item) (simp_all add: py_get_def is_record_def)
    then show ?thesis by (simp add: case_prod_unfold Let_def)
  qed
qed

lemma journal_data_records: "journal_data es = PList (map saved_record es)"
  by (simp add: journal_data_def saved_record_def case_prod_unfold)

lemma parsed_date_saved:
  "parse (isoformat (fst e)) = Inr (fst e) \<Longrightarrow> parsed_date parse (saved_record e) = Some (fst e)"
  by (simp add: parsed_date_def saved_record_def field_def)

lemma load_items_saved:
  assumes "\<forall>e \<in> set es. parse (isoformat (fst e)) = Inr (fst e)"
  shows "load_items parse clock k (map saved_record es) acc = Inr (acc @ es)"
  using assms
proof (induction es arbitrary: acc)
  case Nil
  show ?case by simp
next
  case (Cons e es)
  have "saved_record e = PDict [(''date'', PStr (isoformat (fst e))), (''content'', snd e)]"
    by (simp add: saved_record_def)
  moreover have "parsed_date parse (saved_record e) = Some (fst e)"
    using Cons.prems by (simp add: parsed_date_saved)
  ultimately have "load_items parse clock k (saved_record e # map saved_record es) acc =
      load_items parse clock k (map saved_record es) (acc @ [e])"
    using load_items_step [of parse clock k
        "[(''date'', PStr (isoformat (fst e))), (''content'', snd e)]" "map saved_record es" acc]
    by (simp del: load_items.simps)
  with Cons show ?case by simp
qed

lemma load_after_save:
  assumes "\<forall>e \<in> set (journal_entries u). parse (isoformat (fst e)) = Inr (fst e)"
    and "journal_file v = journal_file u"
  shows "load_journals parse clock v (snd (save_journals WriteOk u fs)) =
      Inr (v\<lparr>journal_entries := journal_entries u\<rparr>)"
  using assms
  by (simp add: load_journals_def save_journals_def dump_file_def read_json_def py_iter_def
      journal_data_records load_items_saved [where acc = "[]", simplified])

lemma load_journals_total: "\<exists>u'. load_journals parse clock u fs = Inr u'"
  by (simp add: load_journals_def split: option.splits sum.splits)

lemma load_journals_fields:
  "load_journals parse clock u fs = Inr u' \<Longrightarrow>
     username u' = username u \<and> partner u' = partner u \<and>
     journal_password u' = journal_password u \<and> journal_file u' = journal_file u"
  by (auto simp: load_journals_def split: option.splits sum.splits)

lemma User_init_ok:
  "\<exists>u. User_init cwd parse clock fs uname prt = Inr u \<and> username u = uname \<and>
     partner u = prt \<and> journal_password u = None"
proof -
  obtain u where u: "User_init cwd parse clock fs uname prt = Inr u"
    unfolding User_init_def using load_journals_total by blast
  from load_journals_fields [OF u [unfolded User_init_def]] u show ?thesis by simp
qed

lemma valid_sample_time: "valid_datetime sample_time" "utcoffset sample_time = None"
  by (simp_all add: valid_datetime_def sample_time_def valid_ymd_def days_in_month_def
      is_leap_def valid_offset_def)

lemma valid_sample_date: "valid_date sample_date"
  by (simp add: valid_date_def sample_date_def valid_ymd_def days_in_month_def DAYS_IN_MONTH_def)

lemma valid_midnight: "valid_date d \<Longrightarrow> valid_datetime (midnight d)"
  "utcoffset (midnight d) = None"
  by (simp_all add: valid_date_def valid_datetime_def midnight_def valid_offset_def)

lemma datetime_new_midnight:
  "valid_date d \<Longrightarrow> datetime_new (year d) (month d) (day d) 0 0 0 0 = Inr (midnight d)"
  by (simp add: datetime_new_def valid_date_def midnight_def)

lemma add_journal_entry_result:
  assumes "normalize_date now d = Inr dt"
  shows "add_journal_entry now w entry d u fs =
     (Inr (u\<lparr>journal_entries := journal_entries u @ [(dt, entry)]\<rparr>),
      case w of WriteOk \<Rightarrow>
          fs(journal_file u \<mapsto> Json (journal_data (journal_entries u @ [(dt, entry)])))
      | WriteFails e left \<Rightarrow> fs(journal_file u := left))"
  using assms
  by (simp add: add_journal_entry_def save_journals_def dump_file_def Let_def
      split: write_outcome.splits)

lemma normalize_date_ok:
  "date_arg_ok d \<Longrightarrow> \<exists>dt. normalize_date now d = Inr dt"
  by (cases d) (simp_all add: normalize_date_def date_arg_ok_def datetime_new_midnight)

subsection \<open>The journal store\<close>

text \<open>
  C1. Saving the store and loading the file it wrote gives back the same multiset of
  (content, timestamp cut to the minute) pairs. The write is one that succeeds and the
  load is into any user with the same journal file. With \<open>read_isoformat\<close> as the
  parser this holds for every store of naive timestamps of the calendar, which are the
  timestamps the application makes; with any parser it holds for every store whose
  timestamps the parser reads back from the text \<open>isoformat\<close> writes. The entries come
  back as the same list, so no precision is lost at all.
\<close>

theorem save_load_roundtrip:
  assumes "journal_file v = journal_file u"
  shows "((\<forall>e \<in> set (journal_entries u). valid_datetime (fst e) \<and> utcoffset (fst e) = None) \<longrightarrow>
          (\<exists>v'. load_journals read_isoformat clock v (snd (save_journals WriteOk u fs)) = Inr v' \<and>
             mset (map minute_pair (journal_entries v')) =
             mset (map minute_pair (journal_entries u)) \<and>
             journal_entries v' = journal_entries u)) \<and>
         ((\<forall>e \<in> set (journal_entries u). parse (isoformat (fst e)) = Inr (fst e)) \<longrightarrow>
          (\<exists>v'. load_journals parse clock v (snd (save_journals WriteOk u fs)) = Inr v' \<and>
             mset (map minute_pair (journal_entries v')) =
             mset (map minute_pair (journal_entries u)) \<and>
             journal_entries v' = journal_entries u))"
proof (intro conjI impI)
  assume "\<forall>e \<in> set (journal_entries u). valid_datetime (fst e) \<and> utcoffset (fst e) = None"
  then have "\<forall>e \<in> set (journal_entries u). read_isoformat (isoformat (fst e)) = Inr (fst e)"
    by (simp add: read_isoformat_isoformat)
  then have "load_journals read_isoformat clock v (snd (save_journals WriteOk u fs)) =
      Inr (v\<lparr>journal_entries := journal_entries u\<rparr>)"
    using assms by (rule load_after_save)
  then show "\<exists>v'. load_journals read_isoformat clock v (snd (save_journals WriteOk u fs)) = Inr v' \<and>
             mset (map minute_pair (journal_entries v')) =
             mset (map minute_pair (journal_entries u)) \<and>
             journal_entries v' = journal_entries u"
    by simp
next
  assume "\<forall>e \<in> set (journal_entries u). parse (isoformat (fst e)) = Inr (fst e)"
  then have "load_journals parse clock v (snd (save_journals WriteOk u fs)) =
      Inr (v\<lparr>journal_entries := journal_entries u\<rparr>)"
    using assms by (rule load_after_save)
  then show "\<exists>v'. load_journals parse clock v (snd (save_journals WriteOk u fs)) = Inr v' \<and>
             mset (map minute_pair (journal_entries v')) =
             mset (map minute_pair (journal_entries u)) \<and>
             journal_entries v' = journal_entries u"
    by simp
qed

text \<open>An instance: a store of two entries, written to an empty disk and read back.\<close>

theorem save_load_roundtrip_witness:
  "\<exists>v'. load_journals read_isoformat sample_clock (sample_user\<lparr>journal_entries := []\<rparr>)
           (snd (save_journals WriteOk sample_user empty_disk)) = Inr v' \<and>
      mset (map minute_pair (journal_entries v')) =
      mset (map minute_pair [(sample_time, PStr ''hari ini''), (midnight sample_date, PStr ''Mood'')]) \<and>
      journal_entries v' = [(sample_time, PStr ''hari ini''), (midnight sample_date, PStr ''Mood'')]"
  using save_load_roundtrip [of "sample_user\<lparr>journal_entries := []\<rparr>" sample_user
      sample_clock empty_disk read_isoformat]
  by (simp add: sample_user_def valid_sample_time valid_midnight valid_sample_date)

text \<open>
  C2. After \<open>add_journal_entry\<close>, \<open>get_journal_entries\<close> holds an entry with exactly
  the content given: stamped with the current time when no date is given, with the
  timestamp given when it is a \<open>datetime\<close>, and with midnight of the date when a
  date-only value is given.
\<close>

theorem append_then_list:
  "(\<exists>u'. fst (add_journal_entry now w entry NoDate u fs) = Inr u' \<and>
          (now, entry) \<in> set (get_journal_entries u')) \<and>
   (\<exists>u'. fst (add_journal_entry now w entry (DateTime dt) u fs) = Inr u' \<and>
          (dt, entry) \<in> set (get_journal_entries u')) \<and>
   (valid_date d \<longrightarrow>
      (\<exists>u'. fst (add_journal_entry now w entry (DateOnly d) u fs) = Inr u' \<and>
            (midnight d, entry) \<in> set (get_journal_entries u')))"
proof (intro conjI impI)
  have "normalize_date now NoDate = Inr now"
    by (simp add: normalize_date_def)
  from add_journal_entry_result [OF this]
  show "\<exists>u'. fst (add_journal_entry now w entry NoDate u fs) = Inr u' \<and>
          (now, entry) \<in> set (get_journal_entries u')"
    by (simp add: get_journal_entries_def)
  have "normalize_date now (DateTime dt) = Inr dt"
    by (simp add: normalize_date_def)
  from add_journal_entry_result [OF this]
  show "\<exists>u'. fst (add_journal_entry now w entry (DateTime dt) u fs) = Inr u' \<and>
          (dt, entry) \<in> set (get_journal_entries u')"
    by (simp add: get_journal_entries_def)
  assume "valid_date d"
  then have "normalize_date now (DateOnly d) = Inr (midnight d)"
    by (simp add: normalize_date_def datetime_new_midnight)
  from add_journal_entry_result [OF this]
  show "\<exists>u'. fst (add_journal_entry now w entry (DateOnly d) u fs) = Inr u' \<and>
          (midnight d, entry) \<in> set (get_journal_entries u')"
    by (simp add: get_journal_entries_def)
qed

text \<open>An instance with a date-only value.\<close>

theorem append_then_list_witness:
  "\<exists>u'. fst (add_journal_entry sample_time WriteOk (PStr ''x'') (DateOnly sample_date)
               sample_user empty_disk) = Inr u' \<and>
        (midnight sample_date, PStr ''x'') \<in> set (get_journal_entries u')"
  using append_then_list [of sample_time WriteOk "PStr ''x''" sample_user empty_disk
      sample_time sample_date]
  by (simp add: valid_sample_date)

text \<open>
  C3. \<open>add_journal_entry\<close> returns normally whatever the write does: the new entry is
  the last of the entries in memory after the call, also when the write raises, and
  \<open>_save_journals\<close> itself swallows the exception of a failed write.
\<close>

theorem append_never_raises:
  assumes "date_arg_ok d"
  shows "(\<exists>dt fs'. add_journal_entry now w entry d u fs =
            (Inr (u\<lparr>journal_entries := journal_entries u @ [(dt, entry)]\<rparr>), fs')) \<and>
         (\<exists>dt. add_journal_entry now (WriteFails e left) entry d u fs =
            (Inr (u\<lparr>journal_entries := journal_entries u @ [(dt, entry)]\<rparr>),
             fs(journal_file u := left))) \<and>
         fst (save_journals (WriteFails e left) u fs) = Inr ()"
proof -
  from normalize_date_ok [OF assms] obtain dt where "normalize_date now d = Inr dt" by blast
  from add_journal_entry_result [OF this, of w entry u fs]
    add_journal_entry_result [OF this, of "WriteFails e left" entry u fs]
  show ?thesis
    by (auto simp: save_journals_def dump_file_def)
qed

text \<open>An instance where the write raises \<open>OSError\<close> and leaves a damaged file.\<close>

theorem append_never_raises_witness:
  "\<exists>dt. add_journal_entry sample_time (WriteFails OSError (Some Malformed)) (PStr ''x'')
          (DateOnly sample_date) sample_user sample_disk =
        (Inr (sample_user\<lparr>journal_entries := journal_entries sample_user @ [(dt, PStr ''x'')]\<rparr>),
         sample_disk(journal_file sample_user \<mapsto> Malformed))"
  using append_never_raises [of "DateOnly sample_date" sample_time "WriteFails OSError (Some Malformed)"
     "PStr ''x''" sample_user sample_disk OSError "Some Malformed"]
  by (simp add: date_arg_ok_def valid_sample_date)

subsection \<open>The stack of recent actions\<close>

lemma pop_push: "pop (push x s) = (Some x, s)"
  by (simp add: pop_def push_def)

lemma pop_empty: "pop (s\<lparr>stack := []\<rparr>) = (None, s\<lparr>stack := []\<rparr>)"
  by (simp add: pop_def)

lemma pop_init: "pop StackManager_init = (None, StackManager_init)"
  by (simp add: pop_def StackManager_init_def)

text \<open>
  C6. The stack is last-in first-out: after pushing \<open>a\<close>, \<open>b\<close>, \<open>c\<close> on any stack,
  three pops return \<open>c\<close>, \<open>b\<close>, \<open>a\<close> and leave the stack as it was; on a new stack a
  fourth pop returns \<open>None\<close>; \<open>pop\<close> and \<open>peek\<close> on an empty stack return \<open>None\<close> and
  raise nothing.
\<close>

theorem stack_lifo:
  "(let s3 = push c (push b (push a s));
        (r1, s2) = pop s3; (r2, s1) = pop s2; (r3, s0) = pop s1
    in r1 = Some c \<and> r2 = Some b \<and> r3 = Some a \<and> s0 = s)
   \<and> (let s3 = push c (push b (push a StackManager_init));
        (r1, s2) = pop s3; (r2, s1) = pop s2; (r3, s0) = pop s1; (r4, s') = pop s0
    in r4 = None \<and> s' = StackManager_init)
   \<and> pop (s\<lparr>stack := []\<rparr>) = (None, s\<lparr>stack := []\<rparr>)
   \<and> peek (s\<lparr>stack := []\<rparr>) = None
   \<and> peek (push a s) = Some a"
proof (intro conjI)
  show "(let s3 = push c (push b (push a s));
        (r1, s2) = pop s3; (r2, s1) = pop s2; (r3, s0) = pop s1
    in r1 = Some c \<and> r2 = Some b \<and> r3 = Some a \<and> s0 = s)"
    by (simp add: pop_push)
  show "(let s3 = push c (push b (push a StackManager_init));
        (r1, s2) = pop s3; (r2, s1) = pop s2; (r3, s0) = pop s1; (r4, s') = pop s0
    in r4 = None \<and> s' = StackManager_init)"
    by (simp add: pop_push pop_init)
  show "pop (s\<lparr>stack := []\<rparr>) = (None, s\<lparr>stack := []\<rparr>)"
    by (rule pop_empty)
  show "peek (s\<lparr>stack := []\<rparr>) = None"
    by (simp add: peek_def)
  show "peek (push a s) = Some a"
    by (simp add: peek_def push_def)
qed

text \<open>An instance on a stack that already holds an item.\<close>

theorem stack_lifo_witness:
  "fst (pop (push (3::nat) (push 2 (push 1 \<lparr>stack = [0]\<rparr>)))) = Some 3 \<and>
   fst (pop (snd (pop (push (3::nat) (push 2 (push 1 \<lparr>stack = [0]\<rparr>)))))) = Some 2 \<and>
   peek (\<lparr>stack = [0::nat]\<rparr>\<lparr>stack := []\<rparr>) = None"
  using stack_lifo [of "3::nat" 2 1 "\<lparr>stack = [0]\<rparr>"]
  by (simp add: pop_push)

subsection \<open>The red-flag check\<close>

lemma level_tiers:
  "fst (level_of 0) = safe_tier" "fst (level_of 1) = caution_tier"
  "fst (level_of 2) = caution_tier" "3 \<le> n \<Longrightarrow> fst (level_of n) = risk_tier"
  by (simp_all add: level_of_def safe_tier_def caution_tier_def risk_tier_def)

lemma length5: "length xs = 5 \<Longrightarrow> \<exists>a b c d e. xs = [a, b, c, d, e]"
  by (auto simp: eval_nat_numeral length_Suc_conv)

lemma press_five:
  assumes "length xs = 5" "set xs \<subseteq> {0, 1}"
  shows "shown (press xs red_flag_init) = Some (sum_list xs, level_of (sum_list xs))"
proof -
  from assms(1) obtain a b c d e where xs: "xs = [a, b, c, d, e]" using length5 by blast
  with assms(2) have ab: "a = 0 \<or> a = 1" "b = 0 \<or> b = 1" "c = 0 \<or> c = 1" "d = 0 \<or> d = 1"
    "e = 0 \<or> e = 1"
    by auto
  show ?thesis unfolding xs using ab
    by (auto simp: red_flag_init_def ans_yes_def ans_no_def next_q_def n_items_def Let_def
        split: prod.splits)
qed

lemma level_shown_five:
  assumes "length xs = 5" "set xs \<subseteq> {0, 1}"
  shows "level_shown (press xs red_flag_init) = Some (fst (level_of (sum_list xs)))"
  using press_five [OF assms] by (simp add: level_shown_def split: prod.splits)

text \<open>
  C7. The number of yes answers decides the tier: 0 is the safe tier, 1 and 2 the
  caution tier, 3 or more the risk tier. After the five answers 1,1,1,0,0 the check
  shows the risk tier, after 0,0,0,0,0 the safe tier and after 1,0,0,0,0 the caution
  tier; after any five answers it shows their sum and the tier of the sum.
\<close>

theorem red_flag_tiers:
  "fst (level_of 0) = safe_tier \<and> fst (level_of 1) = caution_tier \<and>
   fst (level_of 2) = caution_tier \<and> (3 \<le> n \<longrightarrow> fst (level_of n) = risk_tier) \<and>
   level_shown (press [1, 1, 1, 0, 0] red_flag_init) = Some risk_tier \<and>
   level_shown (press [0, 0, 0, 0, 0] red_flag_init) = Some safe_tier \<and>
   level_shown (press [1, 0, 0, 0, 0] red_flag_init) = Some caution_tier \<and>
   (length xs = 5 \<and> set xs \<subseteq> {0, 1} \<longrightarrow>
      shown (press xs red_flag_init) = Some (sum_list xs, level_of (sum_list xs)))"
proof -
  have "level_shown (press [1, 1, 1, 0, 0] red_flag_init) = Some risk_tier"
    by (subst level_shown_five) (simp_all add: level_tiers)
  moreover have "level_shown (press [0, 0, 0, 0, 0] red_flag_init) = Some safe_tier"
    by (subst level_shown_five) (simp_all add: level_tiers)
  moreover have "level_shown (press [1, 0, 0, 0, 0] red_flag_init) = Some caution_tier"
    by (subst level_shown_five) (simp_all add: level_tiers)
  ultimately show ?thesis
    using level_tiers(1-3) level_tiers(4) [of n] press_five [of xs] by simp
qed

text \<open>An instance: four and five yes answers.\<close>

theorem red_flag_tiers_witness:
  "fst (level_of 4) = risk_tier \<and>
   shown (press [1, 1, 1, 1, 1] red_flag_init) = Some (5, level_of 5)"
  using red_flag_tiers [of 4 "[1, 1, 1, 1, 1]"] by simp

subsection \<open>The journal secret\<close>

text \<open>
  C8. \<open>check_journal_password\<close> is true for the stored secret and for no other string:
  not for the empty string when the secret is not empty, not for a variant in another
  case, and for no string at all before a secret is set.
\<close>

theorem check_secret_exact:
  "check_journal_password cand (set_journal_password secret u) = (cand = secret) \<and>
   (secret \<noteq> [] \<longrightarrow> \<not> check_journal_password [] (set_journal_password secret u)) \<and>
   \<not> check_journal_password ''budi'' (set_journal_password ''Budi'' u) \<and>
   (journal_password u = None \<longrightarrow> \<not> check_journal_password cand u)"
  by (auto simp: check_journal_password_def set_journal_password_def)

text \<open>An instance: the secret of the sample user, and a new secret.\<close>

theorem check_secret_exact_witness:
  "check_journal_password ''Budi'' (set_journal_password ''Budi'' sample_user) \<and>
   \<not> check_journal_password ''BUDI'' (set_journal_password ''Budi'' sample_user) \<and>
   \<not> check_journal_password [] (set_journal_password ''Budi'' sample_user) \<and>
   \<not> check_journal_password ''Budi'' (sample_user\<lparr>journal_password := None\<rparr>)"
  using check_secret_exact [of "''Budi''" "''Budi''" sample_user]
    check_secret_exact [of "''BUDI''" "''Budi''" sample_user]
    check_secret_exact [of "''Budi''" "''Budi''" "sample_user\<lparr>journal_password := None\<rparr>"]
  by simp

subsection \<open>Loading the journal file\<close>

lemma load_journals_records:
  assumes "fs (journal_file u) = Some (Json (PList items))"
    and "\<forall>item \<in> set items. is_record item"
  shows "\<exists>es. load_journals parse clock u fs = Inr (u\<lparr>journal_entries := es\<rparr>) \<and>
     length es = length items \<and>
     (\<forall>i < length items.
        snd (es ! i) = (case field (items ! i) ''content'' of None \<Rightarrow> PStr [] | Some v \<Rightarrow> v) \<and>
        fst (es ! i) = (case parsed_date parse (items ! i) of
                          None \<Rightarrow> clock (fallbacks_before parse i items)
                        | Some t \<Rightarrow> t))"
proof -
  from load_items_records [OF assms(2), of parse clock 0 "[]"]
  obtain es where es: "load_items parse clock 0 items [] = Inr ([] @ es) \<and>
     length es = length items \<and>
     (\<forall>i < length items.
        snd (es ! i) = (case field (items ! i) ''content'' of None \<Rightarrow> PStr [] | Some v \<Rightarrow> v) \<and>
        fst (es ! i) = (case parsed_date parse (items ! i) of
                          None \<Rightarrow> clock (0 + fallbacks_before parse i items)
                        | Some t \<Rightarrow> t))" ..
  note es' = es [unfolded add_0 append_Nil]
  have "load_journals parse clock u fs = Inr (u\<lparr>journal_entries := es\<rparr>)"
    using assms(1) conjunct1 [OF es'] by (simp add: load_journals_def read_json_def py_iter_def)
  then show ?thesis
    using conjunct2 [OF es'] by (intro exI [of _ es] conjI) simp_all
qed

lemma load_journals_not_record:
  assumes "fs (journal_file u) = Some (Json (PList items))"
    and "\<exists>item \<in> set items. \<not> is_record item"
  shows "load_journals parse clock u fs = Inr (u\<lparr>journal_entries := []\<rparr>)"
proof -
  from load_items_not_record [OF assms(2)]
  obtain e where "load_items parse clock 0 items [] = Inl e" by blast
  with assms(1) show ?thesis
    by (simp add: load_journals_def read_json_def py_iter_def)
qed

lemma parsed_date_rejected:
  "field item ''date'' = Some (PStr s) \<Longrightarrow> parse s = Inl e \<Longrightarrow> parsed_date parse item = None"
  by (simp add: parsed_date_def)

lemma decimal_numeral:
  "decimal (numeral k) =
     (if (numeral k :: nat) < 10 then [digit_char (numeral k)]
      else decimal (numeral k div 10) @ [digit_char (numeral k mod 10)])"
  by (subst decimal.simps) simp

lemma decimal_small: "decimal 0 = ''0''" "decimal (Suc 0) = ''1''"
  by (subst decimal.simps, simp add: digit_char_def)+

lemma isoformat_sample_time: "isoformat sample_time = ''2024-02-29T23:59:58.123456''"
  by (simp add: isoformat_def sample_time_def format_time_def format_offset_def fmt_d_def
      decimal_numeral decimal_small digit_char_def)

lemma read_isoformat_kemarin: "read_isoformat ''kemarin'' = Inl ValueError"
  by (simp add: read_isoformat_def parse_isoformat_date_def)

lemma disk_files:
  "sample_disk (journal_file sample_user) = Some (Json sample_file)"
  "mixed_disk (journal_file sample_user) = Some (Json mixed_file)"
  "null_disk (journal_file sample_user) = Some (Json null_file)"
  by (simp_all add: sample_disk_def mixed_disk_def null_disk_def sample_user_def)

text \<open>
  Two files that are read the same way by every parser: a list with an element that is
  not a record, and a record whose content is \<open>null\<close>.
\<close>

lemma load_mixed_file:
  "load_journals parse clock sample_user mixed_disk =
     Inr (sample_user\<lparr>journal_entries := []\<rparr>)"
  using load_journals_not_record [where fs = mixed_disk and u = sample_user
      and items = "[PDict [(''date'', PStr ''kemarin''), (''content'', PStr ''a'')], PNum 5]"
      and parse = parse and clock = clock]
  by (simp add: disk_files mixed_file_def is_record_def)

lemma load_null_file:
  "load_journals parse clock sample_user null_disk =
     Inr (sample_user\<lparr>journal_entries :=
       [(case parse ''2024-02-29T23:59:58.123456'' of Inl e \<Rightarrow> clock 0 | Inr t \<Rightarrow> t, PNone)]\<rparr>)"
  by (simp add: load_journals_def disk_files null_file_def read_json_def py_iter_def
      py_get_def fromisoformat_val_def split: sum.splits)

lemma read_sample_time: "read_isoformat ''2024-02-29T23:59:58.123456'' = Inr sample_time"
  using read_isoformat_isoformat [OF valid_sample_time] by (simp add: isoformat_sample_time)

text \<open>
  C4, as stated, fails on a file whose list holds a record with an unreadable date and
  an element that is not a record: the load empties the store, so the entry of the
  record is not kept.
\<close>

theorem load_mixed_file_counterexample:
  "field (PDict [(''date'', PStr ''kemarin''), (''content'', PStr ''a'')]) ''date'' =
     Some (PStr ''kemarin'') \<and>
   read_isoformat ''kemarin'' = Inl ValueError \<and>
   load_journals read_isoformat sample_clock sample_user mixed_disk =
     Inr (sample_user\<lparr>journal_entries := []\<rparr>)"
  by (simp add: field_def read_isoformat_kemarin load_mixed_file)

text \<open>
  C4, as amended. \<open>_load_journals\<close> returns normally on every disk and with every
  parser. With no file at the path the user is unchanged; a file that is not valid JSON
  gives an empty store; in a file that is a list of records, every record gives one
  entry, and a record whose \<open>date\<close> is a string that the parser rejects is kept, with
  its content, under the reading of the clock at its turn; a list with an element that
  is not a record gives an empty store.
\<close>

theorem load_never_raises:
  "(\<exists>u'. load_journals parse clock u fs = Inr u') \<and>
   (fs (journal_file u) = None \<longrightarrow> load_journals parse clock u fs = Inr u) \<and>
   (fs (journal_file u) = Some Malformed \<longrightarrow>
      load_journals parse clock u fs = Inr (u\<lparr>journal_entries := []\<rparr>)) \<and>
   (fs (journal_file u) = Some (Json (PList items)) \<and> (\<forall>item \<in> set items. is_record item) \<longrightarrow>
      (\<exists>es. load_journals parse clock u fs = Inr (u\<lparr>journal_entries := es\<rparr>) \<and>
            length es = length items \<and>
            (\<forall>i < length items. \<forall>s e.
               field (items ! i) ''date'' = Some (PStr s) \<and> parse s = Inl e \<longrightarrow>
               es ! i = (clock (fallbacks_before parse i items),
                         case field (items ! i) ''content'' of None \<Rightarrow> PStr [] | Some v \<Rightarrow> v)))) \<and>
   (fs (journal_file u) = Some (Json (PList items)) \<and> (\<exists>item \<in> set items. \<not> is_record item) \<longrightarrow>
      load_journals parse clock u fs = Inr (u\<lparr>journal_entries := []\<rparr>))"
proof (intro conjI impI)
  show "\<exists>u'. load_journals parse clock u fs = Inr u'"
    by (rule load_journals_total)
  show "load_journals parse clock u fs = Inr u" if "fs (journal_file u) = None"
    using that by (simp add: load_journals_def)
  show "load_journals parse clock u fs = Inr (u\<lparr>journal_entries := []\<rparr>)"
    if "fs (journal_file u) = Some Malformed"
    using that by (simp add: load_journals_def read_json_def)
  show "load_journals parse clock u fs = Inr (u\<lparr>journal_entries := []\<rparr>)"
    if "fs (journal_file u) = Some (Json (PList items)) \<and> (\<exists>item \<in> set items. \<not> is_record item)"
    using that load_journals_not_record [of fs u items parse clock] by blast
  assume a: "fs (journal_file u) = Some (Json (PList items)) \<and> (\<forall>item \<in> set items. is_record item)"
  from load_journals_records [of fs u items parse clock] a
  obtain es where es: "load_journals parse clock u fs = Inr (u\<lparr>journal_entries := es\<rparr>)"
    "length es = length items"
    "\<And>i. i < length items \<Longrightarrow>
        snd (es ! i) = (case field (items ! i) ''content'' of None \<Rightarrow> PStr [] | Some v \<Rightarrow> v) \<and>
        fst (es ! i) = (case parsed_date parse (items ! i) of
                          None \<Rightarrow> clock (fallbacks_before parse i items)
                        | Some t \<Rightarrow> t)"
    by blast
  have "es ! i = (clock (fallbacks_before parse i items),
                  case field (items ! i) ''content'' of None \<Rightarrow> PStr [] | Some v \<Rightarrow> v)"
    if "i < length items" "field (items ! i) ''date'' = Some (PStr s)" "parse s = Inl e"
    for i s e
    using es(3) [OF that(1)]
      parsed_date_rejected [where item = "items ! i" and s = s and parse = parse and e = e,
        OF that(2,3)]
    by (simp add: prod_eq_iff)
  with es(1,2)
  show "\<exists>es. load_journals parse clock u fs = Inr (u\<lparr>journal_entries := es\<rparr>) \<and>
            length es = length items \<and>
            (\<forall>i < length items. \<forall>s e.
               field (items ! i) ''date'' = Some (PStr s) \<and> parse s = Inl e \<longrightarrow>
               es ! i = (clock (fallbacks_before parse i items),
                         case field (items ! i) ''content'' of None \<Rightarrow> PStr [] | Some v \<Rightarrow> v))"
    by blast
qed

text \<open>An instance: the first record of the sample file has the date \<open>kemarin\<close>.\<close>

theorem load_never_raises_witness:
  "\<exists>es. load_journals read_isoformat sample_clock sample_user sample_disk =
          Inr (sample_user\<lparr>journal_entries := es\<rparr>) \<and>
        length es = 3 \<and> es ! 0 = (sample_clock 0, PStr ''a'')"
  using load_never_raises [of read_isoformat sample_clock sample_user sample_disk
      "[PDict [(''date'', PStr ''kemarin''), (''content'', PStr ''a'')],
        PDict [(''date'', PStr ''2024-02-29T23:59:58.123456'')],
        PDict [(''content'', PStr ''c'')]]"]
  by (auto simp: disk_files sample_file_def is_record_def field_def
      read_isoformat_kemarin fallbacks_before_def)

text \<open>
  C10, as stated, fails on a record whose \<open>content\<close> is \<open>null\<close>: the entry is loaded
  with \<open>None\<close> as its content, which is not a text.
\<close>

theorem load_null_content_counterexample:
  "load_journals read_isoformat sample_clock sample_user null_disk =
     Inr (sample_user\<lparr>journal_entries := [(sample_time, PNone)]\<rparr>) \<and>
   \<not> is_text PNone"
  by (simp add: load_null_file read_sample_time is_text_def)

text \<open>
  C10, as amended. In a file that is a list of records, a record with no \<open>content\<close> key
  does not stop the load: its entry has the empty string as content. A record with the
  key gives its value, of whatever type, so every loaded entry has a content, and the
  contents are texts when the contents present in the file are strings.
\<close>

theorem missing_content_is_empty_text:
  assumes "fs (journal_file u) = Some (Json (PList items))"
    and "\<forall>item \<in> set items. is_record item"
  shows "\<exists>es. load_journals parse clock u fs = Inr (u\<lparr>journal_entries := es\<rparr>) \<and>
     length es = length items \<and>
     (\<forall>i < length items. field (items ! i) ''content'' = None \<longrightarrow> snd (es ! i) = PStr []) \<and>
     (\<forall>i < length items. \<forall>c. field (items ! i) ''content'' = Some c \<longrightarrow> snd (es ! i) = c) \<and>
     ((\<forall>item \<in> set items. \<forall>c. field item ''content'' = Some c \<longrightarrow> is_text c) \<longrightarrow>
        (\<forall>e \<in> set es. is_text (snd e)))"
proof -
  from load_journals_records [where fs = fs and u = u and items = items and clock = clock
      and parse = parse, OF assms]
  obtain es where es: "load_journals parse clock u fs = Inr (u\<lparr>journal_entries := es\<rparr>)"
    "length es = length items"
    "\<And>i. i < length items \<Longrightarrow>
        snd (es ! i) = (case field (items ! i) ''content'' of None \<Rightarrow> PStr [] | Some v \<Rightarrow> v)"
    by blast
  have t: "\<forall>e \<in> set es. is_text (snd e)"
    if h: "\<forall>item \<in> set items. \<forall>c. field item ''content'' = Some c \<longrightarrow> is_text c"
  proof
    fix e assume "e \<in> set es"
    then obtain i where i: "i < length es" "e = es ! i" by (auto simp: in_set_conv_nth)
    with es(2) have "items ! i \<in> set items" by simp
    with h have "\<forall>c. field (items ! i) ''content'' = Some c \<longrightarrow> is_text c" by blast
    with es(3) [of i] i es(2) show "is_text (snd e)"
      by (cases "field (items ! i) ''content''") (simp_all add: is_text_def)
  qed
  from es(3) have "\<forall>i < length items. field (items ! i) ''content'' = None \<longrightarrow> snd (es ! i) = PStr []"
    and "\<forall>i < length items. \<forall>c. field (items ! i) ''content'' = Some c \<longrightarrow> snd (es ! i) = c"
    by simp_all
  with es(1,2) t show ?thesis by blast
qed

text \<open>An instance: the second record of the sample file has no \<open>content\<close>.\<close>

theorem missing_content_is_empty_text_witness:
  "\<exists>es. load_journals read_isoformat sample_clock sample_user sample_disk =
          Inr (sample_user\<lparr>journal_entries := es\<rparr>) \<and>
        snd (es ! 1) = PStr [] \<and> snd (es ! 2) = PStr ''c'' \<and>
        is_text (snd (es ! 0)) \<and> is_text (snd (es ! 1)) \<and> is_text (snd (es ! 2))"
proof -
  let ?items = "[PDict [(''date'', PStr ''kemarin''), (''content'', PStr ''a'')],
        PDict [(''date'', PStr ''2024-02-29T23:59:58.123456'')],
        PDict [(''content'', PStr ''c'')]]"
  have f: "sample_disk (journal_file sample_user) = Some (Json (PList ?items))"
    by (simp add: disk_files sample_file_def)
  have r: "\<forall>item \<in> set ?items. is_record item"
    by (simp add: is_record_def)
  from missing_content_is_empty_text [where fs = sample_disk and u = sample_user
      and items = ?items and clock = sample_clock and parse = read_isoformat, OF f r]
  obtain es where es: "load_journals read_isoformat sample_clock sample_user sample_disk =
          Inr (sample_user\<lparr>journal_entries := es\<rparr>)" "length es = 3"
    "snd (es ! 1) = PStr []" "snd (es ! 2) = PStr ''c''" "\<forall>e \<in> set es. is_text (snd e)"
    by (auto simp: field_def is_text_def)
  from es(2,5) have "is_text (snd (es ! 0))" "is_text (snd (es ! 1))" "is_text (snd (es ! 2))"
    by simp_all
  with es(1,3,4) show ?thesis by blast
qed

subsection \<open>The daily affirmation\<close>

lemma days_before_year_nonneg: "1 \<le> y \<Longrightarrow> 0 \<le> days_before_year y"
  by (simp add: days_before_year_def Let_def)

lemma days_before_month_nonneg: "1 \<le> m \<Longrightarrow> m \<le> 12 \<Longrightarrow> 0 \<le> days_before_month y m"
proof -
  assume "1 \<le> m" "m \<le> 12"
  then have "m = 1 \<or> m = 2 \<or> m = 3 \<or> m = 4 \<or> m = 5 \<or> m = 6 \<or> m = 7 \<or> m = 8 \<or>
      m = 9 \<or> m = 10 \<or> m = 11 \<or> m = 12"
    by arith
  then show ?thesis
    by (elim disjE) (simp_all add: days_before_month_def DAYS_BEFORE_MONTH_def)
qed

lemma toordinal_pos: "valid_date d \<Longrightarrow> 1 \<le> toordinal d"
  using days_before_year_nonneg [of "year d"] days_before_month_nonneg [of "month d" "year d"]
  by (simp add: valid_date_def valid_ymd_def toordinal_def)

lemma toordinal_first: "toordinal \<lparr>year = 1, month = 1, day = 1\<rparr> = 1"
  by (simp add: toordinal_def days_before_year_def days_before_month_def DAYS_BEFORE_MONTH_def)

lemma toordinal_last: "toordinal \<lparr>year = 9999, month = 12, day = 31\<rparr> = 3652059"
  by (simp add: toordinal_def days_before_year_def days_before_month_def DAYS_BEFORE_MONTH_def
      is_leap_def)

lemma toordinal_sample: "toordinal sample_date = 738525"
  by (simp add: sample_date_def toordinal_def days_before_year_def days_before_month_def
      DAYS_BEFORE_MONTH_def)

text \<open>
  C5. Over a non-empty list of length \<open>N\<close>, \<open>get_affirmation\<close> returns the element at
  index (ordinal of today) mod \<open>N\<close>, and the index lies in \<open>0..N-1\<close> for every date.
  The ordinal of a date of the calendar is at least 1; it is 1 on 0001-01-01 and
  3652059 on 9999-12-31. Two calls at local times of the same calendar date return the
  same element, so the result differs only when the local date differs.
\<close>

theorem daily_affirmation:
  "(affirmations p \<noteq> [] \<longrightarrow>
      daily_index today p = Inr (toordinal today mod int (length (affirmations p))) \<and>
      0 \<le> toordinal today mod int (length (affirmations p)) \<and>
      toordinal today mod int (length (affirmations p)) < int (length (affirmations p)) \<and>
      get_affirmation today p =
        Inr (affirmations p ! nat (toordinal today mod int (length (affirmations p))))) \<and>
   (valid_date today \<longrightarrow> 1 \<le> toordinal today) \<and>
   toordinal \<lparr>year = 1, month = 1, day = 1\<rparr> = 1 \<and>
   toordinal \<lparr>year = 9999, month = 12, day = 31\<rparr> = 3652059 \<and>
   (local_date t1 = local_date t2 \<longrightarrow>
      get_affirmation (local_date t1) p = get_affirmation (local_date t2) p) \<and>
   (get_affirmation (local_date t1) p \<noteq> get_affirmation (local_date t2) p \<longrightarrow>
      local_date t1 \<noteq> local_date t2)"
proof (intro conjI impI)
  assume ne: "affirmations p \<noteq> []"
  then show "daily_index today p = Inr (toordinal today mod int (length (affirmations p)))"
    by (simp add: daily_index_def)
  then show "get_affirmation today p =
        Inr (affirmations p ! nat (toordinal today mod int (length (affirmations p))))"
    by (simp add: get_affirmation_def)
  from ne have "0 < int (length (affirmations p))" by simp
  then show "0 \<le> toordinal today mod int (length (affirmations p))"
    and "toordinal today mod int (length (affirmations p)) < int (length (affirmations p))"
    by simp_all
next
  assume "valid_date today"
  then show "1 \<le> toordinal today" by (rule toordinal_pos)
next
  show "toordinal \<lparr>year = 1, month = 1, day = 1\<rparr> = 1" by (rule toordinal_first)
  show "toordinal \<lparr>year = 9999, month = 12, day = 31\<rparr> = 3652059" by (rule toordinal_last)
next
  assume "local_date t1 = local_date t2"
  then show "get_affirmation (local_date t1) p = get_affirmation (local_date t2) p" by simp
next
  assume "get_affirmation (local_date t1) p \<noteq> get_affirmation (local_date t2) p"
  then show "local_date t1 \<noteq> local_date t2" by auto
qed

text \<open>An instance: the twenty affirmations of the application on 2023-01-05.\<close>

theorem daily_affirmation_witness:
  "daily_index sample_date daily_provider = Inr 5 \<and>
   get_affirmation sample_date daily_provider = Inr ''Kamu pantas menerima ketenangan.'' \<and>
   get_affirmation (local_date sample_time) daily_provider =
   get_affirmation (local_date (sample_time\<lparr>hour := 0, minute := 1\<rparr>)) daily_provider"
  using daily_affirmation [of daily_provider sample_date sample_time
      "sample_time\<lparr>hour := 0, minute := 1\<rparr>"]
  by (simp add: daily_provider_def app_affirmations_def toordinal_sample local_date_def)

lemma strip_sample: "strip '' Mine '' = ''Mine''" "strip ''  Budi '' = ''Budi''"
  "strip ''Nama pasangan (opsional)...'' = ''Nama pasangan (opsional)...''"
  "strip ''Mine'' = ''Mine''"
  by (simp_all add: strip_def rstrip_def isspace_def)

subsection \<open>Login\<close>

lemma do_login_ok:
  assumes "strip ue \<noteq> []" "strip ue \<noteq> ''Masukkan nama kamu...''"
  shows "\<exists>u. do_login cwd parse clock fs ue pe a = Inr (a\<lparr>current_user := Some u\<rparr>) \<and>
     username u = strip ue \<and> partner u = strip pe \<and>
     journal_password u =
       Some (if strip pe \<noteq> [] \<and> strip pe \<noteq> ''Nama pasangan (opsional)...''
             then strip pe else ''mine123'')"
proof -
  obtain u where u: "User_init cwd parse clock fs (strip ue) (strip pe) = Inr u"
    "username u = strip ue" "partner u = strip pe" using User_init_ok by blast
  show ?thesis
  proof (cases "strip pe \<noteq> [] \<and> strip pe \<noteq> ''Nama pasangan (opsional)...''")
    case True
    with assms u show ?thesis
      by (intro exI [of _ "set_journal_password (strip pe) u"])
         (simp add: do_login_def Let_def set_journal_password_def)
  next
    case False
    with assms u show ?thesis
      by (intro exI [of _ "set_journal_password ''mine123'' u"])
         (auto simp: do_login_def Let_def set_journal_password_def)
  qed
qed

lemma do_login_rejected:
  "strip ue = [] \<or> strip ue = ''Masukkan nama kamu...'' \<Longrightarrow>
     do_login cwd parse clock fs ue pe a = Inr a"
  by (auto simp: do_login_def Let_def)

text \<open>
  C9. On login the journal secret is set to the partner name when one is supplied, and
  to the constant \<open>mine123\<close> otherwise, so after every login the secret is the partner
  name or that constant. A partner name is supplied when the text of the partner
  field, stripped of white space, is not empty and is not the placeholder that the
  field shows while nothing has been typed; the stripped text is the partner name of
  the session. A login is one whose user name, stripped, is not empty and not the
  placeholder of its field; any other press of the button leaves the application as
  it was.
\<close>

theorem login_secret:
  "(strip ue \<noteq> [] \<and> strip ue \<noteq> ''Masukkan nama kamu...'' \<longrightarrow>
      (\<exists>u. do_login cwd parse clock fs ue pe a = Inr (a\<lparr>current_user := Some u\<rparr>) \<and>
           username u = strip ue \<and> partner u = strip pe \<and>
           journal_password u =
             Some (if strip pe \<noteq> [] \<and> strip pe \<noteq> ''Nama pasangan (opsional)...''
                   then strip pe else ''mine123'') \<and>
           (journal_password u = Some (partner u) \<or> journal_password u = Some ''mine123''))) \<and>
   (strip ue = [] \<or> strip ue = ''Masukkan nama kamu...'' \<longrightarrow>
      do_login cwd parse clock fs ue pe a = Inr a)"
proof (intro conjI impI)
  assume "strip ue \<noteq> [] \<and> strip ue \<noteq> ''Masukkan nama kamu...''"
  then obtain u where u: "do_login cwd parse clock fs ue pe a = Inr (a\<lparr>current_user := Some u\<rparr>)"
    "username u = strip ue" "partner u = strip pe"
    "journal_password u =
       Some (if strip pe \<noteq> [] \<and> strip pe \<noteq> ''Nama pasangan (opsional)...''
             then strip pe else ''mine123'')"
    using do_login_ok [of ue cwd parse clock fs pe a] by blast
  from u(3,4) have "journal_password u = Some (partner u) \<or> journal_password u = Some ''mine123''"
    by (simp split: if_splits)
  with u show "\<exists>u. do_login cwd parse clock fs ue pe a = Inr (a\<lparr>current_user := Some u\<rparr>) \<and>
           username u = strip ue \<and> partner u = strip pe \<and>
           journal_password u =
             Some (if strip pe \<noteq> [] \<and> strip pe \<noteq> ''Nama pasangan (opsional)...''
                   then strip pe else ''mine123'') \<and>
           (journal_password u = Some (partner u) \<or> journal_password u = Some ''mine123'')"
    by blast
next
  assume "strip ue = [] \<or> strip ue = ''Masukkan nama kamu...''"
  then show "do_login cwd parse clock fs ue pe a = Inr a"
    by (rule do_login_rejected)
qed

text \<open>
  Two instances: the partner field holds a name between spaces, and the partner field
  holds its placeholder.
\<close>

theorem login_secret_witness:
  "session_partner sample_login = Some ''Budi'' \<and> session_secret sample_login = Some ''Budi'' \<and>
   session_secret placeholder_login = Some ''mine123''"
proof -
  from login_secret [of "'' Mine ''" "''/home/mine''" read_isoformat sample_clock empty_disk
      "''  Budi ''" "\<lparr>current_user = None\<rparr>"]
  obtain u where u: "sample_login = Inr (\<lparr>current_user = Some u\<rparr>)"
    "partner u = ''Budi''" "journal_password u = Some ''Budi''"
    by (auto simp: strip_sample sample_login_def)
  from login_secret [of "''Mine''" "''/home/mine''" read_isoformat sample_clock empty_disk
      "''Nama pasangan (opsional)...''" "\<lparr>current_user = None\<rparr>"]
  obtain w where w: "placeholder_login = Inr (\<lparr>current_user = Some w\<rparr>)"
    "journal_password w = Some ''mine123''"
    by (auto simp: strip_sample placeholder_login_def)
  show ?thesis
    unfolding session_partner_def session_secret_def session_def u(1) w(1)
    using u(2,3) w(2) by simp
qed

end
